theory Spec2Isabelle
  imports Main "HOL-Library.Sublist" "HOL-Library.Word"
begin

section \<open>The WhatsApp bridge: values, messages and the outside world\<close>

text \<open>
  The bridge is event driven: Baileys delivers connection updates and message batches,
  and the handlers call out to WhatsApp (media download, send), to the Voice Gateway and
  to the OpenClaw orchestrator. Each handler is modelled as a function from the history
  of what has happened so far to the list of new events it causes, together with its
  completion (resolved or rejected). Every call to the outside is an event that records
  the request and what the outside answered; the answer is given by an oracle that sees
  the whole history, so that the outside may answer differently each time.

  JavaScript strings are modelled as \<^typ>\<open>string\<close>, one \<^typ>\<open>char\<close> per code unit
  (code units below 256). A value that may be \<open>null\<close> or \<open>undefined\<close> is an
  \<^typ>\<open>'a option\<close>.
\<close>

type_synonym byte = "8 word"

datatype jsvalue =
    JUndefined
  | JNull
  | JBool bool
  | JNum int
  | JStr string
  | JArr "jsvalue list"
  | JObj "(string \<times> jsvalue) list"

datatype exn =
    AxiosError "nat option"
  | TypeError
  | OtherError string

datatype failure = NetworkFailure | Timeout | MaxContentLengthExceeded

datatype 'a http_outcome =
    HttpResponse nat 'a
  | HttpFailed failure

record 'a axios_response =
  status :: nat
  data :: 'a

text \<open>
  \<open>axios.post\<close> with the default \<open>validateStatus\<close>: a status from 200 to 299 resolves
  with the response, every other status rejects with an AxiosError that carries the status,
  and a request that got no response (network failure, timeout, body over the size limit)
  rejects with an AxiosError without one.
\<close>

definition axios_post :: "'a http_outcome \<Rightarrow> exn + 'a axios_response" where
  "axios_post out =
     (case out of
        HttpResponse st d \<Rightarrow>
          (if 200 \<le> st \<and> st < 300 then Inr \<lparr>status = st, data = d\<rparr>
           else Inl (AxiosError (Some st)))
      | HttpFailed f \<Rightarrow> Inl (AxiosError None))"

definition isAxiosError :: "exn \<Rightarrow> bool" where
  "isAxiosError e = (case e of AxiosError s \<Rightarrow> True | _ \<Rightarrow> False)"

text \<open>Truthiness of a string that may be missing: \<open>null\<close>, \<open>undefined\<close> and \<open>""\<close> are falsy.\<close>

definition truthy :: "string option \<Rightarrow> bool" where
  "truthy s = (case s of None \<Rightarrow> False | Some v \<Rightarrow> v \<noteq> [])"

text \<open>\<open>a || b\<close> on such strings.\<close>

definition js_or :: "string option \<Rightarrow> string option \<Rightarrow> string option" where
  "js_or a b = (if truthy a then a else b)"

text \<open>
  \<open>String.prototype.trim\<close>: white space and line terminators are removed at both ends.
  Below 256 these are TAB, LF, VT, FF, CR, SP and NBSP.
\<close>

definition js_whitespace :: "char \<Rightarrow> bool" where
  "js_whitespace c = ((of_char c :: nat) \<in> {9, 10, 11, 12, 13, 32, 160})"

definition js_trim :: "string \<Rightarrow> string" where
  "js_trim s = rev (dropWhile js_whitespace (rev (dropWhile js_whitespace s)))"

subsection \<open>Inbound messages (\<open>proto.IWebMessageInfo\<close>)\<close>

record MessageKey =
  remoteJid :: "string option"
  fromMe :: "bool option"
  participant :: "string option"
  msg_id :: "string option"

record ExtendedTextMessage =
  ext_text :: "string option"

record AudioMessage =
  seconds :: "nat option"
  ptt :: "bool option"

record Message =
  conversation :: "string option"
  extendedTextMessage :: "ExtendedTextMessage option"
  audioMessage :: "AudioMessage option"
  otherKeys :: "string list"

record WebMessageInfo =
  key :: MessageKey
  message :: "Message option"

subsection \<open>Orchestrator payload and reply (\<open>bridge.ts\<close>)\<close>

record BridgePayload =
  channel :: string
  sender_id :: string
  content :: string

record BridgeResponse =
  resp_text :: "string option"
  resp_metadata :: "(string \<times> jsvalue) list option"
  resp_error :: "string option"

subsection \<open>Events and the world\<close>

datatype level = Debug | Info | Warn | Error

record FormFile =
  field :: string
  file_bytes :: "byte list"
  filename :: string
  contentType :: string

datatype event =
    Log level string
  | DownloadMedia WebMessageInfo "exn + byte list option"
  | PostTranscribe string FormFile nat nat "jsvalue http_outcome"
  | PostOpenClaw string BridgePayload nat "BridgeResponse http_outcome"
  | SendMessage string string "exn option"

text \<open>
  The world: the two environment variables read at start-up and one oracle per call to the
  outside. \<open>downloadMediaMessage\<close> either throws or returns a buffer; \<open>sendMessage\<close>
  either rejects (\<open>Some\<close>) or resolves (\<open>None\<close>).
\<close>

record world =
  env_OPENCLAW_URL :: "string option"
  env_VOICE_GATEWAY_URL :: "string option"
  downloadMediaMessage :: "event list \<Rightarrow> WebMessageInfo \<Rightarrow> exn + byte list option"
  post_transcribe :: "event list \<Rightarrow> string \<Rightarrow> FormFile \<Rightarrow> jsvalue http_outcome"
  post_openclaw :: "event list \<Rightarrow> string \<Rightarrow> BridgePayload \<Rightarrow> BridgeResponse http_outcome"
  sendMessage :: "event list \<Rightarrow> string \<Rightarrow> string \<Rightarrow> exn option"

definition OPENCLAW_URL :: "world \<Rightarrow> string" where
  "OPENCLAW_URL w =
     (if truthy (env_OPENCLAW_URL w) then the (env_OPENCLAW_URL w) else ''http://openclaw:8000'')"

definition VOICE_GATEWAY_URL :: "world \<Rightarrow> string" where
  "VOICE_GATEWAY_URL w =
     (if truthy (env_VOICE_GATEWAY_URL w) then the (env_VOICE_GATEWAY_URL w)
      else ''http://voice-gateway:8001'')"

section \<open>\<open>bridge.ts\<close>: forwarding to the orchestrator\<close>

text \<open>
  \<open>forwardToOpenClaw\<close> posts the payload once. The whole call sits in a \<open>try\<close>; the
  \<open>catch\<close> logs and returns \<open>null\<close>.
\<close>

definition forwardToOpenClaw ::
  "world \<Rightarrow> event list \<Rightarrow> string \<Rightarrow> string \<Rightarrow> BridgeResponse option \<times> event list" where
  "forwardToOpenClaw w h senderId cont =
     (let url = OPENCLAW_URL w @ ''/api/v1/message'';
          payload = \<lparr>channel = ''whatsapp'', sender_id = senderId, content = cont\<rparr>;
          e1 = [Log Info ''Forwarding message to OpenClaw''];
          out = post_openclaw w (h @ e1) url payload;
          e2 = e1 @ [PostOpenClaw url payload 30000 out]
      in case axios_post out of
           Inr response \<Rightarrow>
             (Some (data response), e2 @ [Log Info ''OpenClaw response received''])
         | Inl err \<Rightarrow>
             (None,
              e2 @ [if isAxiosError err
                    then Log Error ''Failed to forward message to OpenClaw''
                    else Log Error ''Unexpected error forwarding to OpenClaw'']))"

section \<open>\<open>audio-handler\<close>: transcription of a voice message\<close>

text \<open>
  \<open>response.data?.text?.trim()\<close>: \<open>undefined\<close> when the data or its \<open>text\<close> is
  \<open>null\<close> or \<open>undefined\<close>, the trimmed string when \<open>text\<close> is a string, and a
  TypeError when \<open>text\<close> is anything else (it has no callable \<open>trim\<close>).
\<close>

definition get_text :: "jsvalue \<Rightarrow> jsvalue" where
  "get_text d =
     (case d of
        JObj props \<Rightarrow> (case map_of props ''text'' of None \<Rightarrow> JUndefined | Some v \<Rightarrow> v)
      | _ \<Rightarrow> JUndefined)"

definition text_trim :: "jsvalue \<Rightarrow> exn + string option" where
  "text_trim d =
     (case d of
        JUndefined \<Rightarrow> Inr None
      | JNull \<Rightarrow> Inr None
      | _ \<Rightarrow>
        (case get_text d of
           JUndefined \<Rightarrow> Inr None
         | JNull \<Rightarrow> Inr None
         | JStr s \<Rightarrow> Inr (Some (js_trim s))
         | _ \<Rightarrow> Inl TypeError))"

definition audio_catch :: "exn \<Rightarrow> event" where
  "audio_catch err =
     (if isAxiosError err then Log Error ''Voice Gateway transcription request failed''
      else Log Error ''Failed to handle audio message'')"

definition handleAudioMessage ::
  "world \<Rightarrow> event list \<Rightarrow> WebMessageInfo \<Rightarrow> string option \<times> event list" where
  "handleAudioMessage w h msg =
     (let e0 = [Log Info ''Downloading voice message''];
          dl = downloadMediaMessage w (h @ e0) msg;
          e1 = e0 @ [DownloadMedia msg dl]
      in case dl of
           Inl err \<Rightarrow> (None, e1 @ [audio_catch err])
         | Inr buffer \<Rightarrow>
             (case buffer of
                None \<Rightarrow> (None, e1 @ [Log Warn ''Downloaded audio buffer is empty''])
              | Some audioBuffer \<Rightarrow>
                  if length audioBuffer = 0
                  then (None, e1 @ [Log Warn ''Downloaded audio buffer is empty''])
                  else
                    (let e2 = e1 @ [Log Info
                                 ''Voice message downloaded, sending to transcription service''];
                         form = \<lparr>field = ''file'', file_bytes = audioBuffer,
                                 filename = ''voice.ogg'', contentType = ''audio/ogg''\<rparr>;
                         url = VOICE_GATEWAY_URL w @ ''/api/transcribe'';
                         out = post_transcribe w (h @ e2) url form;
                         e3 = e2 @ [PostTranscribe url form 60000 (50 * 1024 * 1024) out]
                     in case axios_post out of
                          Inl err \<Rightarrow> (None, e3 @ [audio_catch err])
                        | Inr response \<Rightarrow>
                            (case text_trim (data response) of
                               Inl err \<Rightarrow> (None, e3 @ [audio_catch err])
                             | Inr transcribedText \<Rightarrow>
                                 if \<not> truthy transcribedText
                                 then (None,
                                       e3 @ [Log Warn ''Transcription service returned empty text''])
                                 else (transcribedText,
                                       e3 @ [Log Info ''Audio transcription successful''])))))"

section \<open>\<open>message-handler\<close>: classification and routing\<close>

definition STATUS_BROADCAST :: string where
  "STATUS_BROADCAST = ''status@broadcast''"

text \<open>\<open>jid.endsWith("@g.us")\<close> and \<open>isGroup ? msg.key.participant || jid : jid\<close>.\<close>

definition isGroup :: "string \<Rightarrow> bool" where
  "isGroup jid = suffix ''@g.us'' jid"

definition senderId_of :: "WebMessageInfo \<Rightarrow> string \<Rightarrow> string" where
  "senderId_of msg jid =
     (if isGroup jid then the (js_or (participant (key msg)) (Some jid)) else jid)"

text \<open>\<open>msg.message?.conversation || msg.message?.extendedTextMessage?.text\<close>.\<close>

definition textContent_of :: "WebMessageInfo \<Rightarrow> string option" where
  "textContent_of msg =
     (case message msg of
        None \<Rightarrow> None
      | Some m \<Rightarrow>
          js_or (conversation m)
                (case extendedTextMessage m of None \<Rightarrow> None | Some x \<Rightarrow> ext_text x))"

definition audioMessage_of :: "WebMessageInfo \<Rightarrow> AudioMessage option" where
  "audioMessage_of msg = (case message msg of None \<Rightarrow> None | Some m \<Rightarrow> audioMessage m)"

text \<open>
  \<open>if (response?.text) await sock.sendMessage(jid, { text: response.text })\<close>: the
  statement that both paths run on the orchestrator's reply. A rejected send is not caught
  here.
\<close>

definition reply_text :: "BridgeResponse option \<Rightarrow> string option" where
  "reply_text response = (case response of None \<Rightarrow> None | Some r \<Rightarrow> resp_text r)"

definition processMessage ::
  "world \<Rightarrow> event list \<Rightarrow> WebMessageInfo \<Rightarrow> exn option \<times> event list" where
  "processMessage w h msg =
     (if \<not> truthy (remoteJid (key msg)) then (None, [])
      else
        (let jid = the (remoteJid (key msg)) in
         if jid = STATUS_BROADCAST
         then (None, [Log Debug ''Ignoring status broadcast message''])
         else if fromMe (key msg) = Some True then (None, [])
         else
           (let senderId = senderId_of msg jid;
                e0 = [Log Info ''Incoming message''];
                textContent = textContent_of msg
            in if truthy textContent then
                 (let prefix_str = (if isGroup jid then ''[group:'' @ jid @ ''] '' else '''');
                      fullContent = prefix_str @ the textContent;
                      e1 = e0 @ [Log Info ''Forwarding text message to OpenClaw''];
                      (response, ef) = forwardToOpenClaw w (h @ e1) senderId fullContent;
                      e2 = e1 @ ef
                  in if truthy (reply_text response) then
                       (let r = sendMessage w (h @ e2) jid (the (reply_text response))
                        in (r, e2 @ [SendMessage jid (the (reply_text response)) r]))
                     else (None, e2))
               else if audioMessage_of msg \<noteq> None then
                 (let e1 = e0 @ [Log Info ''Received audio message, transcribing''];
                      (transcribedText, ea) = handleAudioMessage w (h @ e1) msg;
                      e2 = e1 @ ea
                  in if truthy transcribedText then
                       (let prefix_str = (if isGroup jid then ''[group:'' @ jid @ ''] '' else '''');
                            fullContent = prefix_str @ ''[voice] '' @ the transcribedText;
                            e3 = e2 @ [Log Info ''Forwarding transcribed audio to OpenClaw''];
                            (response, ef) = forwardToOpenClaw w (h @ e3) senderId fullContent;
                            e4 = e3 @ ef
                        in if truthy (reply_text response) then
                             (let r = sendMessage w (h @ e4) jid (the (reply_text response))
                              in (r, e4 @ [SendMessage jid (the (reply_text response)) r]))
                           else (None, e4))
                     else (None, e2 @ [Log Warn ''Audio transcription returned empty result'']))
               else (None, e0 @ [Log Debug ''Ignoring unsupported message type'']))))"

text \<open>
  The \<open>messages.upsert\<close> handler: batches of another type are ignored; in a \<open>notify\<close>
  batch the messages are processed in order, each in its own \<open>try\<close>/\<open>catch\<close>. The
  completion of the loop is kept, so that an exception leaving it would show.
\<close>

fun process_batch ::
  "world \<Rightarrow> event list \<Rightarrow> WebMessageInfo list \<Rightarrow> exn option \<times> event list" where
  "process_batch w h [] = (None, [])"
| "process_batch w h (msg # msgs) =
     (let (r, e) = processMessage w h msg;
          (r', e') = (case r of
                        None \<Rightarrow> (None, e)
                      | Some err \<Rightarrow> (None, e @ [Log Error ''Error processing message'']))
      in case r' of
           Some err \<Rightarrow> (Some err, e')
         | None \<Rightarrow> (let (r2, e2) = process_batch w (h @ e') msgs in (r2, e' @ e2)))"

definition on_messages_upsert ::
  "world \<Rightarrow> event list \<Rightarrow> WebMessageInfo list \<Rightarrow> string \<Rightarrow> exn option \<times> event list" where
  "on_messages_upsert w h messages type =
     (if type \<noteq> ''notify'' then (None, []) else process_batch w h messages)"

subsection \<open>What a list of events shows\<close>

fun is_log :: "event \<Rightarrow> bool" where
  "is_log (Log l s) = True"
| "is_log e = False"

definition calls_of :: "event list \<Rightarrow> event list" where
  "calls_of evs = filter (\<lambda>e. \<not> is_log e) evs"

fun forward_of :: "event \<Rightarrow> BridgePayload list" where
  "forward_of (PostOpenClaw url p t out) = [p]"
| "forward_of e = []"

definition forwards_of :: "event list \<Rightarrow> BridgePayload list" where
  "forwards_of evs = concat (map forward_of evs)"

fun send_of :: "event \<Rightarrow> (string \<times> string) list" where
  "send_of (SendMessage jid t r) = [(jid, t)]"
| "send_of e = []"

definition sends_of :: "event list \<Rightarrow> (string \<times> string) list" where
  "sends_of evs = concat (map send_of evs)"

fun download_of :: "event \<Rightarrow> (exn + byte list option) list" where
  "download_of (DownloadMedia m r) = [r]"
| "download_of e = []"

definition downloads_of :: "event list \<Rightarrow> (exn + byte list option) list" where
  "downloads_of evs = concat (map download_of evs)"

fun transcribe_of :: "event \<Rightarrow> jsvalue http_outcome list" where
  "transcribe_of (PostTranscribe url f t m out) = [out]"
| "transcribe_of e = []"

definition transcribes_of :: "event list \<Rightarrow> jsvalue http_outcome list" where
  "transcribes_of evs = concat (map transcribe_of evs)"

text \<open>The orchestrator's answers to the forwards among the events.\<close>

fun answer_of :: "event \<Rightarrow> BridgeResponse http_outcome list" where
  "answer_of (PostOpenClaw url p t out) = [out]"
| "answer_of e = []"

definition answers_of :: "event list \<Rightarrow> BridgeResponse http_outcome list" where
  "answers_of evs = concat (map answer_of evs)"

text \<open>
  A message passes the filters of \<open>processMessage\<close> when it has a conversation id that
  is not the status broadcast and it was not sent by the bridge's own account.
\<close>

definition passes_filters :: "WebMessageInfo \<Rightarrow> bool" where
  "passes_filters msg =
     (truthy (remoteJid (key msg)) \<and> remoteJid (key msg) \<noteq> Some STATUS_BROADCAST
      \<and> fromMe (key msg) \<noteq> Some True)"

section \<open>\<open>whatsapp.ts\<close>: the session handle and the reconnect decision\<close>

record BoomOutput =
  statusCode :: "nat option"

record DisconnectError =
  err_output :: "BoomOutput option"

record LastDisconnect =
  error :: "DisconnectError option"

record ConnectionUpdate =
  connection :: "string option"
  lastDisconnect :: "LastDisconnect option"
  qr :: "string option"

text \<open>\<open>(lastDisconnect?.error as Boom)?.output?.statusCode\<close>\<close>

definition statusCode_of :: "ConnectionUpdate \<Rightarrow> nat option" where
  "statusCode_of update =
     (case lastDisconnect update of
        None \<Rightarrow> None
      | Some ld \<Rightarrow>
          (case error ld of
             None \<Rightarrow> None
           | Some err \<Rightarrow> (case err_output err of None \<Rightarrow> None | Some out \<Rightarrow> statusCode out)))"

text \<open>
  The module state: the process-wide \<open>socket\<close> (a socket is identified by the number of
  sockets made before it), the timers set by \<open>setTimeout\<close> and not yet run (delay in
  milliseconds and callback), the log, and the calls made into Baileys so far. The only
  callback ever scheduled is \<open>() => connectWhatsApp().catch(...)\<close>.
\<close>

datatype callback = Reconnect

datatype baileys_call = UseMultiFileAuthState | FetchLatestBaileysVersion | MakeWASocket

record wa_state =
  socket :: "nat option"
  sockets_made :: nat
  timers :: "(nat \<times> callback) list"
  wa_log :: "event list"
  baileys_calls :: "baileys_call list"

definition initial_state :: wa_state where
  "initial_state =
     \<lparr>socket = None, sockets_made = 0, timers = [], wa_log = [], baileys_calls = []\<rparr>"

definition getSocket :: "wa_state \<Rightarrow> nat option \<times> wa_state" where
  "getSocket st = (socket st, st)"


definition logw :: "level \<Rightarrow> string \<Rightarrow> wa_state \<Rightarrow> wa_state" where
  "logw l s st = st\<lparr>wa_log := wa_log st @ [Log l s]\<rparr>"

text \<open>
  The \<open>connection.update\<close> listener that \<open>connectWhatsApp\<close> registers on the socket
  \<open>sock\<close> it made. \<open>DisconnectReason.loggedOut\<close> is a constant of Baileys and is a
  parameter here.
\<close>

definition on_connection_update ::
  "nat \<Rightarrow> nat \<Rightarrow> ConnectionUpdate \<Rightarrow> wa_state \<Rightarrow> wa_state" where
  "on_connection_update loggedOut sock update st =
     (let st1 = (if truthy (qr update)
                 then logw Info ''QR code generated - scan with WhatsApp to authenticate'' st
                 else st);
          st2 = (if connection update = Some ''close'' then
                   (let shouldReconnect = (statusCode_of update \<noteq> Some loggedOut);
                        s1 = logw Warn ''WhatsApp connection closed'' st1
                    in if shouldReconnect then
                         (let s2 = logw Info ''Reconnecting to WhatsApp in 3 seconds...'' s1
                          in s2\<lparr>timers := timers s2 @ [(3000, Reconnect)]\<rparr>)
                       else
                         (let s2 = logw Error
                            ''Logged out of WhatsApp. Delete the session directory and restart to re-authenticate.'' s1
                          in s2\<lparr>socket := None\<rparr>))
                 else st1);
          st3 = (if connection update = Some ''open'' then
                   (let s1 = logw Info ''WhatsApp connection established successfully'' st2
                    in s1\<lparr>socket := Some sock\<rparr>)
                 else st2)
      in st3)"

text \<open>
  \<open>connectWhatsApp\<close> awaits the auth state and the protocol version, makes the socket,
  registers the listeners and stores the socket. Each of the three calls into Baileys may
  throw; what they do is given by the outcome. Every call made is recorded, so that a run
  of \<open>connectWhatsApp\<close> shows as one \<open>useMultiFileAuthState\<close>, its first statement.
\<close>

datatype connect_outcome =
    AuthStateFails exn
  | VersionFails exn
  | MakeSocketFails exn
  | Connected

definition called :: "baileys_call \<Rightarrow> wa_state \<Rightarrow> wa_state" where
  "called c st = st\<lparr>baileys_calls := baileys_calls st @ [c]\<rparr>"

definition connectWhatsApp :: "connect_outcome \<Rightarrow> wa_state \<Rightarrow> (exn + nat) \<times> wa_state" where
  "connectWhatsApp co st =
     (let s0 = called UseMultiFileAuthState st
      in case co of
           AuthStateFails e \<Rightarrow> (Inl e, s0)
         | VersionFails e \<Rightarrow> (Inl e, called FetchLatestBaileysVersion s0)
         | MakeSocketFails e \<Rightarrow>
             (Inl e,
              called MakeWASocket
                (logw Info ''Using Baileys version'' (called FetchLatestBaileysVersion s0)))
         | Connected \<Rightarrow>
             (let s1 = called MakeWASocket
                         (logw Info ''Using Baileys version''
                            (called FetchLatestBaileysVersion s0));
                  sock = sockets_made s1
              in (Inr sock, s1\<lparr>sockets_made := Suc sock, socket := Some sock\<rparr>)))"

text \<open>The number of runs of \<open>connectWhatsApp\<close> so far.\<close>

definition connect_calls :: "wa_state \<Rightarrow> nat" where
  "connect_calls st = length (filter (\<lambda>c. c = UseMultiFileAuthState) (baileys_calls st))"

definition initWhatsApp ::
  "bool \<Rightarrow> exn option \<Rightarrow> connect_outcome \<Rightarrow> wa_state \<Rightarrow> (exn + nat) \<times> wa_state" where
  "initWhatsApp dir_exists mkdir co st =
     (if \<not> dir_exists then
        (case mkdir of
           Some e \<Rightarrow> (Inl e, st)
         | None \<Rightarrow> connectWhatsApp co (logw Info ''Created session directory'' st))
      else connectWhatsApp co st)"

text \<open>The scheduled callback runs: one \<open>connectWhatsApp\<close>, a rejection is logged.\<close>

definition run_callback :: "connect_outcome \<Rightarrow> wa_state \<Rightarrow> wa_state" where
  "run_callback co st =
     (let (r, s1) = connectWhatsApp co (st\<lparr>timers := tl (timers st)\<rparr>)
      in case r of
           Inl err \<Rightarrow> logw Error ''Reconnection failed'' s1
         | Inr sock \<Rightarrow> s1)"






section \<open>Notions used in the statements\<close>

text \<open>
  What \<open>forwardToOpenClaw\<close> returns for an answer of the orchestrator: the body of a
  response that \<open>axios\<close> accepts, \<open>null\<close> otherwise.
\<close>

definition bridge_reply :: "BridgeResponse http_outcome \<Rightarrow> BridgeResponse option" where
  "bridge_reply out = (case axios_post out of Inl err \<Rightarrow> None | Inr response \<Rightarrow> Some (data response))"

text \<open>The send that an answer of the orchestrator leads to, in conversation \<open>jid\<close>.\<close>

definition send_for :: "string \<Rightarrow> BridgeResponse http_outcome \<Rightarrow> (string \<times> string) list" where
  "send_for jid out =
     (case bridge_reply out of
        None \<Rightarrow> []
      | Some r \<Rightarrow> (case resp_text r of None \<Rightarrow> [] | Some t \<Rightarrow> if t = [] then [] else [(jid, t)]))"


text \<open>The number of messages taken up, as the log shows it.\<close>

definition incoming_count :: "event list \<Rightarrow> nat" where
  "incoming_count evs = length (filter (\<lambda>e. e = Log Info ''Incoming message'') evs)"



section \<open>Example worlds and messages\<close>

definition ok_reply :: BridgeResponse where
  "ok_reply = \<lparr>resp_text = Some ''ok'', resp_metadata = None, resp_error = None\<rparr>"

definition example_world :: world where
  "example_world =
     \<lparr>env_OPENCLAW_URL = None, env_VOICE_GATEWAY_URL = None,
      downloadMediaMessage = (\<lambda>h m. Inr (Some [79, 103, 103, 83])),
      post_transcribe = (\<lambda>h u f. HttpResponse 200 (JObj [(''text'', JStr '' order status '')])),
      post_openclaw = (\<lambda>h u p. HttpResponse 200 ok_reply),
      sendMessage = (\<lambda>h j t. None)\<rparr>"

definition group_key :: MessageKey where
  "group_key = \<lparr>remoteJid = Some ''123@g.us'', fromMe = Some False,
                 participant = Some ''555@s.whatsapp.net'', msg_id = Some ''M1''\<rparr>"

definition hello_group_msg :: WebMessageInfo where
  "hello_group_msg =
     \<lparr>key = group_key,
      message = Some \<lparr>conversation = Some ''hello'', extendedTextMessage = None,
                      audioMessage = None, otherKeys = []\<rparr>\<rparr>"

definition voice_group_msg :: WebMessageInfo where
  "voice_group_msg =
     \<lparr>key = group_key,
      message = Some \<lparr>conversation = None, extendedTextMessage = None,
                      audioMessage = Some \<lparr>seconds = Some 3, ptt = Some True\<rparr>,
                      otherKeys = []\<rparr>\<rparr>"

definition status_msg :: WebMessageInfo where
  "status_msg = hello_group_msg\<lparr>key := group_key\<lparr>remoteJid := Some ''status@broadcast''\<rparr>\<rparr>"

definition own_msg :: WebMessageInfo where
  "own_msg = hello_group_msg\<lparr>key := group_key\<lparr>fromMe := Some True\<rparr>\<rparr>"

definition text_and_audio_msg :: WebMessageInfo where
  "text_and_audio_msg =
     \<lparr>key = group_key,
      message = Some \<lparr>conversation = Some ''caption'', extendedTextMessage = None,
                      audioMessage = Some \<lparr>seconds = Some 3, ptt = Some True\<rparr>,
                      otherKeys = []\<rparr>\<rparr>"

definition empty_text_world :: world where
  "empty_text_world = example_world\<lparr>post_openclaw :=
      (\<lambda>h u p. HttpResponse 200 \<lparr>resp_text = Some '''', resp_metadata = None, resp_error = None\<rparr>)\<rparr>"

definition failing_world :: world where
  "failing_world = example_world\<lparr>post_openclaw := (\<lambda>h u p. HttpResponse 503 ok_reply),
      sendMessage := (\<lambda>h j t. Some (OtherError ''Connection Closed''))\<rparr>"

definition empty_participant_msg :: WebMessageInfo where
  "empty_participant_msg = hello_group_msg\<lparr>key := group_key\<lparr>participant := Some ''''\<rparr>\<rparr>"

definition anon_group_msg :: WebMessageInfo where
  "anon_group_msg = hello_group_msg\<lparr>key := group_key\<lparr>participant := None\<rparr>\<rparr>"

definition direct_msg :: WebMessageInfo where
  "direct_msg = hello_group_msg\<lparr>key := group_key\<lparr>remoteJid := Some ''777@s.whatsapp.net'',
                                                   participant := None\<rparr>\<rparr>"

definition transient_close :: ConnectionUpdate where
  "transient_close =
     \<lparr>connection = Some ''close'',
      lastDisconnect = Some \<lparr>error = Some \<lparr>err_output = Some \<lparr>statusCode = Some 428\<rparr>\<rparr>\<rparr>,
      qr = None\<rparr>"

definition logout_close :: ConnectionUpdate where
  "logout_close =
     \<lparr>connection = Some ''close'',
      lastDisconnect = Some \<lparr>error = Some \<lparr>err_output = Some \<lparr>statusCode = Some 401\<rparr>\<rparr>\<rparr>,
      qr = None\<rparr>"

definition open_update :: ConnectionUpdate where
  "open_update = \<lparr>connection = Some ''open'', lastDisconnect = None, qr = None\<rparr>"

definition connected_state :: wa_state where
  "connected_state = snd (initWhatsApp True None Connected initial_state)"

definition send_failing_world :: world where
  "send_failing_world =
     example_world\<lparr>sendMessage := (\<lambda>h j t. Some (OtherError ''Connection Closed''))\<rparr>"

definition empty_download_world :: world where
  "empty_download_world = example_world\<lparr>downloadMediaMessage := (\<lambda>h m. Inr (Some []))\<rparr>"

definition blank_transcript_world :: world where
  "blank_transcript_world =
     example_world\<lparr>post_transcribe := (\<lambda>h u f. HttpResponse 200 (JObj [(''text'', JStr ''  '')]))\<rparr>"

definition gateway_down_world :: world where
  "gateway_down_world = example_world\<lparr>post_transcribe := (\<lambda>h u f. HttpFailed Timeout)\<rparr>"

definition gateway_error_world :: world where
  "gateway_error_world =
     example_world\<lparr>post_transcribe := (\<lambda>h u f. HttpResponse 500 (JObj [(''text'', JStr ''x'')]))\<rparr>"

section \<open>Properties\<close>

subsection \<open>Reading the events\<close>

lemmas ex_defs = example_world_def group_key_def hello_group_msg_def voice_group_msg_def ok_reply_def
  status_msg_def own_msg_def text_and_audio_msg_def
  empty_text_world_def failing_world_def empty_participant_msg_def anon_group_msg_def
  direct_msg_def send_failing_world_def empty_download_world_def
  blank_transcript_world_def gateway_down_world_def gateway_error_world_def

lemmas eval_defs = processMessage_def handleAudioMessage_def forwardToOpenClaw_def
  Let_def truthy_def js_or_def textContent_of_def audioMessage_of_def senderId_of_def
  isGroup_def suffix_to_prefix STATUS_BROADCAST_def axios_post_def isAxiosError_def
  text_trim_def get_text_def js_trim_def js_whitespace_def reply_text_def
  OPENCLAW_URL_def VOICE_GATEWAY_URL_def audio_catch_def passes_filters_def

lemma calls_of_simps [simp]:
  "calls_of [] = []"
  "calls_of (e # es) = (if is_log e then calls_of es else e # calls_of es)"
  "calls_of (xs @ ys) = calls_of xs @ calls_of ys"
  by (simp_all add: calls_of_def)

lemma forwards_of_simps [simp]:
  "forwards_of [] = []"
  "forwards_of (e # es) = forward_of e @ forwards_of es"
  "forwards_of (xs @ ys) = forwards_of xs @ forwards_of ys"
  by (simp_all add: forwards_of_def)

lemma sends_of_simps [simp]:
  "sends_of [] = []"
  "sends_of (e # es) = send_of e @ sends_of es"
  "sends_of (xs @ ys) = sends_of xs @ sends_of ys"
  by (simp_all add: sends_of_def)

lemma downloads_of_simps [simp]:
  "downloads_of [] = []"
  "downloads_of (e # es) = download_of e @ downloads_of es"
  "downloads_of (xs @ ys) = downloads_of xs @ downloads_of ys"
  by (simp_all add: downloads_of_def)

lemma transcribes_of_simps [simp]:
  "transcribes_of [] = []"
  "transcribes_of (e # es) = transcribe_of e @ transcribes_of es"
  "transcribes_of (xs @ ys) = transcribes_of xs @ transcribes_of ys"
  by (simp_all add: transcribes_of_def)

lemma answers_of_simps [simp]:
  "answers_of [] = []"
  "answers_of (e # es) = answer_of e @ answers_of es"
  "answers_of (xs @ ys) = answers_of xs @ answers_of ys"
  by (simp_all add: answers_of_def)

lemma forward_events:
  "snd (forwardToOpenClaw w h s c) =
     [Log Info ''Forwarding message to OpenClaw'',
      PostOpenClaw (OPENCLAW_URL w @ ''/api/v1/message'')
        \<lparr>channel = ''whatsapp'', sender_id = s, content = c\<rparr> 30000
        (post_openclaw w (h @ [Log Info ''Forwarding message to OpenClaw''])
           (OPENCLAW_URL w @ ''/api/v1/message'')
           \<lparr>channel = ''whatsapp'', sender_id = s, content = c\<rparr>),
      (case axios_post (post_openclaw w (h @ [Log Info ''Forwarding message to OpenClaw''])
           (OPENCLAW_URL w @ ''/api/v1/message'')
           \<lparr>channel = ''whatsapp'', sender_id = s, content = c\<rparr>) of
         Inr r \<Rightarrow> Log Info ''OpenClaw response received''
       | Inl err \<Rightarrow> Log Error ''Failed to forward message to OpenClaw'')]"
  by (auto simp: forwardToOpenClaw_def Let_def axios_post_def isAxiosError_def
           split: sum.splits http_outcome.splits)

lemma forward_result:
  "fst (forwardToOpenClaw w h s c) =
     bridge_reply (post_openclaw w (h @ [Log Info ''Forwarding message to OpenClaw''])
           (OPENCLAW_URL w @ ''/api/v1/message'')
           \<lparr>channel = ''whatsapp'', sender_id = s, content = c\<rparr>)"
  by (simp add: forwardToOpenClaw_def Let_def bridge_reply_def split: sum.splits)

lemma forward_obs [simp]:
  "forwards_of (snd (forwardToOpenClaw w h s c)) = [\<lparr>channel = ''whatsapp'', sender_id = s, content = c\<rparr>]"
  "sends_of (snd (forwardToOpenClaw w h s c)) = []"
  "downloads_of (snd (forwardToOpenClaw w h s c)) = []"
  "transcribes_of (snd (forwardToOpenClaw w h s c)) = []"
  by (simp_all add: forward_events split: sum.splits)

lemma forward_answers:
  "answers_of (snd (forwardToOpenClaw w h s c)) = [out] \<Longrightarrow> fst (forwardToOpenClaw w h s c) = bridge_reply out"
  by (simp add: forward_events forward_result split: sum.splits)

lemma forward_answers_length [simp]:
  "length (answers_of (snd (forwardToOpenClaw w h s c))) = 1"
  by (simp add: forward_events split: sum.splits)

lemma audio_obs [simp]:
  "forwards_of (snd (handleAudioMessage w h msg)) = []"
  "sends_of (snd (handleAudioMessage w h msg)) = []"
  "answers_of (snd (handleAudioMessage w h msg)) = []"
  by (simp_all add: handleAudioMessage_def Let_def audio_catch_def split: sum.splits option.splits)

lemma audio_result_truthy:
  "fst (handleAudioMessage w h msg) = Some T \<Longrightarrow> T \<noteq> []"
  by (auto simp: handleAudioMessage_def Let_def truthy_def split: sum.splits option.splits if_splits)

lemma passes_filtersD:
  assumes "passes_filters msg"
  obtains jid where "remoteJid (key msg) = Some jid" "jid \<noteq> []" "jid \<noteq> STATUS_BROADCAST"
    "fromMe (key msg) \<noteq> Some True"
  using assms by (auto simp: passes_filters_def truthy_def split: option.splits)

subsection \<open>The paths of \<open>processMessage\<close>\<close>

lemma process_text:
  assumes "passes_filters msg" and "truthy (textContent_of msg)"
  shows "processMessage w h msg =
    (let jid = the (remoteJid (key msg));
         e1 = [Log Info ''Incoming message'', Log Info ''Forwarding text message to OpenClaw''];
         fw = forwardToOpenClaw w (h @ e1) (senderId_of msg jid)
                ((if isGroup jid then ''[group:'' @ jid @ ''] '' else '''') @ the (textContent_of msg))
     in if truthy (reply_text (fst fw))
        then (sendMessage w (h @ e1 @ snd fw) jid (the (reply_text (fst fw))),
              e1 @ snd fw @ [SendMessage jid (the (reply_text (fst fw)))
                 (sendMessage w (h @ e1 @ snd fw) jid (the (reply_text (fst fw))))])
        else (None, e1 @ snd fw))"
proof -
  from assms(1) obtain jid where j: "remoteJid (key msg) = Some jid" "jid \<noteq> []"
    "jid \<noteq> STATUS_BROADCAST" "fromMe (key msg) \<noteq> Some True"
    by (rule passes_filtersD)
  have t: "truthy (Some jid)" using j(2) by (simp add: truthy_def)
  show ?thesis
    using j t assms(2) by (simp add: processMessage_def Let_def split_def)
qed

lemma process_voice:
  assumes "passes_filters msg" and "\<not> truthy (textContent_of msg)" and "audioMessage_of msg \<noteq> None"
  shows "processMessage w h msg =
    (let jid = the (remoteJid (key msg));
         e1 = [Log Info ''Incoming message'', Log Info ''Received audio message, transcribing''];
         au = handleAudioMessage w (h @ e1) msg
     in if truthy (fst au) then
          (let e3 = e1 @ snd au @ [Log Info ''Forwarding transcribed audio to OpenClaw''];
               fw = forwardToOpenClaw w (h @ e3) (senderId_of msg jid)
                ((if isGroup jid then ''[group:'' @ jid @ ''] '' else '''') @ ''[voice] '' @ the (fst au))
           in if truthy (reply_text (fst fw))
              then (sendMessage w (h @ e3 @ snd fw) jid (the (reply_text (fst fw))),
                    e3 @ snd fw @ [SendMessage jid (the (reply_text (fst fw)))
                       (sendMessage w (h @ e3 @ snd fw) jid (the (reply_text (fst fw))))])
              else (None, e3 @ snd fw))
        else (None, e1 @ snd au @ [Log Warn ''Audio transcription returned empty result'']))"
proof -
  from assms(1) obtain jid where j: "remoteJid (key msg) = Some jid" "jid \<noteq> []"
    "jid \<noteq> STATUS_BROADCAST" "fromMe (key msg) \<noteq> Some True"
    by (rule passes_filtersD)
  have t: "truthy (Some jid)" using j(2) by (simp add: truthy_def)
  show ?thesis
    using j t assms(2,3) by (simp add: processMessage_def Let_def split_def)
qed

lemma process_other:
  assumes "passes_filters msg" and "\<not> truthy (textContent_of msg)" and "audioMessage_of msg = None"
  shows "processMessage w h msg =
     (None, [Log Info ''Incoming message'', Log Debug ''Ignoring unsupported message type''])"
proof -
  from assms(1) obtain jid where j: "remoteJid (key msg) = Some jid" "jid \<noteq> []"
    "jid \<noteq> STATUS_BROADCAST" "fromMe (key msg) \<noteq> Some True"
    by (rule passes_filtersD)
  have t: "truthy (Some jid)" using j(2) by (simp add: truthy_def)
  show ?thesis
    using j t assms(2,3) by (simp add: processMessage_def Let_def split_def)
qed

lemma process_dropped:
  assumes "\<not> passes_filters msg"
  shows "processMessage w h msg =
     (None, if remoteJid (key msg) = Some STATUS_BROADCAST
            then [Log Debug ''Ignoring status broadcast message''] else [])"
proof (cases "truthy (remoteJid (key msg))")
  case False
  then have "remoteJid (key msg) \<noteq> Some STATUS_BROADCAST"
    by (auto simp: truthy_def STATUS_BROADCAST_def)
  with False show ?thesis by (simp add: processMessage_def)
next
  case True
  then obtain jid where j: "remoteJid (key msg) = Some jid"
    by (auto simp: truthy_def split: option.splits)
  with True assms have "jid = STATUS_BROADCAST \<or> fromMe (key msg) = Some True"
    by (auto simp: passes_filters_def)
  with True j show ?thesis by (auto simp: processMessage_def Let_def)
qed

lemma process_answers_le: "length (answers_of (snd (processMessage w h msg))) \<le> 1"
proof (cases "passes_filters msg")
  case False
  then show ?thesis by (simp add: process_dropped)
next
  case p: True
  show ?thesis
  proof (cases "truthy (textContent_of msg)")
    case True
    show ?thesis by (simp add: process_text [OF p True] Let_def)
  next
    case t: False
    show ?thesis
    proof (cases "audioMessage_of msg = None")
      case True
      show ?thesis by (simp add: process_other [OF p t True])
    next
      case False
      show ?thesis by (simp add: process_voice [OF p t False] Let_def)
    qed
  qed
qed

lemma send_for_reply:
  "send_for jid out = (if truthy (reply_text (bridge_reply out)) then [(jid, the (reply_text (bridge_reply out)))] else [])"
  by (simp add: send_for_def reply_text_def truthy_def split: option.splits)

lemma answers_forward:
  "answers_of (snd (forwardToOpenClaw w h s c)) =
     [post_openclaw w (h @ [Log Info ''Forwarding message to OpenClaw''])
           (OPENCLAW_URL w @ ''/api/v1/message'')
           \<lparr>channel = ''whatsapp'', sender_id = s, content = c\<rparr>]"
  by (simp add: forward_events split: sum.splits)

lemma process_sends:
  "sends_of (snd (processMessage w h msg)) =
     concat (map (send_for (the (remoteJid (key msg)))) (answers_of (snd (processMessage w h msg))))"
proof (cases "passes_filters msg")
  case False
  then show ?thesis by (simp add: process_dropped)
next
  case p: True
  show ?thesis
  proof (cases "truthy (textContent_of msg)")
    case True
    show ?thesis
      by (simp add: process_text [OF p True] Let_def answers_forward send_for_reply forward_result)
  next
    case t: False
    show ?thesis
    proof (cases "audioMessage_of msg = None")
      case True
      show ?thesis by (simp add: process_other [OF p t True])
    next
      case False
      show ?thesis
        by (simp add: process_voice [OF p t False] Let_def answers_forward send_for_reply forward_result)
    qed
  qed
qed

lemma process_failed_forward:
  assumes "\<forall>out \<in> set (answers_of (snd (processMessage w h msg))). bridge_reply out = None"
  shows "sends_of (snd (processMessage w h msg)) = [] \<and> fst (processMessage w h msg) = None"
proof (cases "passes_filters msg")
  case False
  then show ?thesis by (simp add: process_dropped)
next
  case p: True
  show ?thesis
  proof (cases "truthy (textContent_of msg)")
    case True
    let ?fw = "forwardToOpenClaw w
                 (h @ [Log Info ''Incoming message'', Log Info ''Forwarding text message to OpenClaw''])
                 (senderId_of msg (the (remoteJid (key msg))))
                 ((if isGroup (the (remoteJid (key msg)))
                   then ''[group:'' @ the (remoteJid (key msg)) @ ''] '' else '''')
                  @ the (textContent_of msg))"
    have "set (answers_of (snd ?fw)) \<subseteq> set (answers_of (snd (processMessage w h msg)))"
      by (simp add: process_text [OF p True] Let_def)
    with assms have "\<forall>out \<in> set (answers_of (snd ?fw)). bridge_reply out = None" by blast
    then have "fst ?fw = None" by (simp add: answers_forward forward_result)
    then show ?thesis
      by (simp add: process_text [OF p True] Let_def reply_text_def truthy_def)
  next
    case t: False
    show ?thesis
    proof (cases "audioMessage_of msg = None")
      case True
      show ?thesis by (simp add: process_other [OF p t True])
    next
      case False
      let ?e1 = "[Log Info ''Incoming message'', Log Info ''Received audio message, transcribing'']"
      let ?au = "handleAudioMessage w (h @ ?e1) msg"
      show ?thesis
      proof (cases "truthy (fst ?au)")
        case a: False
        then show ?thesis by (simp add: process_voice [OF p t False] Let_def)
      next
        case a: True
        let ?fw = "forwardToOpenClaw w
                 (h @ ?e1 @ snd ?au @ [Log Info ''Forwarding transcribed audio to OpenClaw''])
                 (senderId_of msg (the (remoteJid (key msg))))
                 ((if isGroup (the (remoteJid (key msg)))
                   then ''[group:'' @ the (remoteJid (key msg)) @ ''] '' else '''')
                  @ ''[voice] '' @ the (fst ?au))"
        have "set (answers_of (snd ?fw)) \<subseteq> set (answers_of (snd (processMessage w h msg)))"
          using a by (simp add: process_voice [OF p t False] Let_def)
        with assms have "\<forall>out \<in> set (answers_of (snd ?fw)). bridge_reply out = None" by blast
        then have "fst ?fw = None" by (simp add: answers_forward forward_result)
        then show ?thesis
          using a by (simp add: process_voice [OF p t False] Let_def reply_text_def truthy_def)
      qed
    qed
  qed
qed

lemma bridge_reply_cases:
  "bridge_reply out =
     (case out of
        HttpResponse st d \<Rightarrow> if 200 \<le> st \<and> st < 300 then Some d else None
      | HttpFailed f \<Rightarrow> None)"
proof (cases out)
  case (HttpResponse st d)
  then show ?thesis by (simp add: bridge_reply_def axios_post_def)
next
  case (HttpFailed f)
  then show ?thesis by (simp add: bridge_reply_def axios_post_def)
qed

lemma process_sender:
  "\<forall>p \<in> set (forwards_of (snd (processMessage w h msg))).
      sender_id p = senderId_of msg (the (remoteJid (key msg)))"
proof (cases "passes_filters msg")
  case False
  then show ?thesis by (simp add: process_dropped)
next
  case p: True
  show ?thesis
  proof (cases "truthy (textContent_of msg)")
    case True
    show ?thesis by (simp add: process_text [OF p True] Let_def)
  next
    case t: False
    show ?thesis
    proof (cases "audioMessage_of msg = None")
      case True
      show ?thesis by (simp add: process_other [OF p t True])
    next
      case False
      show ?thesis by (simp add: process_voice [OF p t False] Let_def)
    qed
  qed
qed

subsection \<open>The voice path\<close>












subsection \<open>The batch loop\<close>

lemma incoming_count_simps [simp]:
  "incoming_count [] = 0"
  "incoming_count (e # es) = (if e = Log Info ''Incoming message'' then 1 else 0) + incoming_count es"
  "incoming_count (xs @ ys) = incoming_count xs + incoming_count ys"
  by (simp_all add: incoming_count_def)

lemma forward_incoming [simp]: "incoming_count (snd (forwardToOpenClaw w h s c)) = 0"
  by (simp add: forward_events split: sum.splits)

lemma audio_incoming [simp]: "incoming_count (snd (handleAudioMessage w h msg)) = 0"
  by (simp add: handleAudioMessage_def Let_def audio_catch_def split: sum.splits option.splits)







subsection \<open>The session handle over the lifecycle\<close>

lemmas wa_defs = on_connection_update_def Let_def logw_def statusCode_of_def truthy_def
  connectWhatsApp_def initWhatsApp_def run_callback_def initial_state_def getSocket_def called_def
  transient_close_def logout_close_def connected_state_def open_update_def









lemma connect_calls_connectWhatsApp:
  "connect_calls (snd (connectWhatsApp co st)) = Suc (connect_calls st)"
  by (cases co) (simp_all add: connectWhatsApp_def connect_calls_def called_def logw_def Let_def)

lemma connect_calls_logw [simp]: "connect_calls (logw l s st) = connect_calls st"
  by (simp add: connect_calls_def logw_def)

lemma connect_calls_run_callback:
  "connect_calls (run_callback co st) = Suc (connect_calls st)"
proof -
  have "connect_calls (st\<lparr>timers := tl (timers st)\<rparr>) = connect_calls st"
    by (simp add: connect_calls_def)
  with connect_calls_connectWhatsApp [of co "st\<lparr>timers := tl (timers st)\<rparr>"]
  show ?thesis
    by (simp add: run_callback_def split_def Let_def split: sum.splits)
qed

lemma timers_run_callback: "timers (run_callback co st) = tl (timers st)"
  by (cases co)
     (simp_all add: run_callback_def connectWhatsApp_def called_def logw_def Let_def)

lemma socket_run_callback_Connected:
  "socket (run_callback Connected st) = Some (sockets_made st)"
  by (simp add: run_callback_def connectWhatsApp_def called_def logw_def Let_def)

subsection \<open>Filtering\<close>

text \<open>
  C2. A batch whose type is not \<open>notify\<close> is ignored as a whole, and a message whose
  conversation id is missing (or empty), or is \<open>status@broadcast\<close>, or that was sent by
  the own account, is dropped: \<open>processMessage\<close> resolves and the only events it may
  leave are log lines, so there is no download, no transcription call, no forward and no
  send.
\<close>

theorem filtered_event_no_side_effects: 
  "(type \<noteq> ''notify'' \<longrightarrow> on_messages_upsert w h msgs type = (None, [])) \<and>
   (\<not> truthy (remoteJid (key msg)) \<or> remoteJid (key msg) = Some STATUS_BROADCAST
      \<or> fromMe (key msg) = Some True \<longrightarrow>
      fst (processMessage w h msg) = None \<and> calls_of (snd (processMessage w h msg)) = [])"
  by (simp add: on_messages_upsert_def processMessage_def Let_def)

theorem filtered_event_no_side_effects_witness:
  "on_messages_upsert example_world [] [hello_group_msg] ''append'' = (None, []) \<and>
   calls_of (snd (processMessage example_world [] status_msg)) = [] \<and>
   calls_of (snd (processMessage example_world [] own_msg)) = []"
proof -
  have a: "''append'' \<noteq> ''notify''" by simp
  have b: "remoteJid (key status_msg) = Some STATUS_BROADCAST"
    by (simp add: ex_defs STATUS_BROADCAST_def)
  have c: "fromMe (key own_msg) = Some True" by (simp add: ex_defs)
  from a b c
    filtered_event_no_side_effects
      [where type = "''append''" and w = example_world and h = "[]"
         and msgs = "[hello_group_msg]" and msg = status_msg]
    filtered_event_no_side_effects
      [where type = "''notify''" and w = example_world and h = "[]"
         and msgs = "[]" and msg = own_msg]
  show ?thesis by simp
qed

subsection \<open>Forwarded content\<close>

text \<open>
  C3. For a message that passes the filters, in conversation \<open>jid\<close>: on the text path
  with body \<open>B\<close> exactly one payload is forwarded and its content is \<open>B\<close>, prefixed by
  \<open>[group:jid] \<close> when \<open>jid\<close> ends in \<open>@g.us\<close>; on the voice path, when the
  transcription returns the non-empty transcript \<open>T\<close>, the content is the same optional
  prefix followed by \<open>[voice] \<close> and \<open>T\<close>. The witness is the pair of examples of the
  specification: \<open>hello\<close> and the transcript \<open>order status\<close> in the group
  \<open>123@g.us\<close>.
\<close>

theorem forwarded_content: 
  assumes "passes_filters msg" and "remoteJid (key msg) = Some jid"
  shows "(textContent_of msg = Some B \<and> B \<noteq> [] \<longrightarrow>
            map content (forwards_of (snd (processMessage w h msg))) =
              [(if suffix ''@g.us'' jid then ''[group:'' @ jid @ ''] '' else '''') @ B]) \<and>
         (\<not> truthy (textContent_of msg) \<and> audioMessage_of msg \<noteq> None \<and>
          fst (handleAudioMessage w
                 (h @ [Log Info ''Incoming message'',
                       Log Info ''Received audio message, transcribing'']) msg) = Some T \<and>
          T \<noteq> [] \<longrightarrow>
            map content (forwards_of (snd (processMessage w h msg))) =
              [(if suffix ''@g.us'' jid then ''[group:'' @ jid @ ''] '' else '''')
               @ ''[voice] '' @ T])"
proof (intro conjI impI)
  assume "textContent_of msg = Some B \<and> B \<noteq> []"
  then have t: "truthy (textContent_of msg)" "the (textContent_of msg) = B"
    by (simp_all add: truthy_def)
  show "map content (forwards_of (snd (processMessage w h msg))) =
              [(if suffix ''@g.us'' jid then ''[group:'' @ jid @ ''] '' else '''') @ B]"
    using t assms(2) by (simp add: process_text [OF assms(1) t(1)] Let_def isGroup_def)
next
  assume a: "\<not> truthy (textContent_of msg) \<and> audioMessage_of msg \<noteq> None \<and>
          fst (handleAudioMessage w
                 (h @ [Log Info ''Incoming message'',
                       Log Info ''Received audio message, transcribing'']) msg) = Some T \<and>
          T \<noteq> []"
  then have v: "\<not> truthy (textContent_of msg)" "audioMessage_of msg \<noteq> None" by simp_all
  from a show "map content (forwards_of (snd (processMessage w h msg))) =
              [(if suffix ''@g.us'' jid then ''[group:'' @ jid @ ''] '' else '''')
               @ ''[voice] '' @ T]"
    using assms(2) by (simp add: process_voice [OF assms(1) v] Let_def isGroup_def truthy_def)
qed

theorem forwarded_content_witness:
  "map content (forwards_of (snd (processMessage example_world [] hello_group_msg)))
     = [''[group:123@g.us] hello''] \<and>
   map content (forwards_of (snd (processMessage example_world [] voice_group_msg)))
     = [''[group:123@g.us] [voice] order status'']"
proof
  have p: "passes_filters hello_group_msg" by (simp add: ex_defs eval_defs)
  have j: "remoteJid (key hello_group_msg) = Some ''123@g.us''" by (simp add: ex_defs)
  have b: "textContent_of hello_group_msg = Some ''hello'' \<and> ''hello'' \<noteq> []"
    by (simp add: ex_defs eval_defs)
  from forwarded_content [OF p j, where B = "''hello''" and w = example_world and h = "[]"] b
  show "map content (forwards_of (snd (processMessage example_world [] hello_group_msg)))
     = [''[group:123@g.us] hello'']"
    by (simp add: suffix_to_prefix)
next
  have p: "passes_filters voice_group_msg" by (simp add: ex_defs eval_defs)
  have j: "remoteJid (key voice_group_msg) = Some ''123@g.us''" by (simp add: ex_defs)
  have b: "\<not> truthy (textContent_of voice_group_msg) \<and> audioMessage_of voice_group_msg \<noteq> None \<and>
          fst (handleAudioMessage example_world
                 ([] @ [Log Info ''Incoming message'',
                       Log Info ''Received audio message, transcribing'']) voice_group_msg) = Some ''order status'' \<and>
          ''order status'' \<noteq> []"
    by (simp add: ex_defs eval_defs)
  from forwarded_content [OF p j, where w = example_world and h = "[]" and T = "''order status''"] b
  show "map content (forwards_of (snd (processMessage example_world [] voice_group_msg)))
     = [''[group:123@g.us] [voice] order status'']"
    by (simp add: suffix_to_prefix)
qed

subsection \<open>Text before audio\<close>

text \<open>
  C9. A message that passes the filters and carries both a non-empty text body \<open>B\<close> and
  an audio payload takes the text path only: there is no media download and no call to the
  transcription backend, and the one payload forwarded is the text content.
\<close>

theorem text_path_precedence:
  assumes "passes_filters msg" and "remoteJid (key msg) = Some jid"
    and "textContent_of msg = Some B" and "B \<noteq> []" and "audioMessage_of msg = Some a"
  shows "downloads_of (snd (processMessage w h msg)) = [] \<and>
         transcribes_of (snd (processMessage w h msg)) = [] \<and>
         forwards_of (snd (processMessage w h msg)) =
           [\<lparr>channel = ''whatsapp'', sender_id = senderId_of msg jid,
             content = (if suffix ''@g.us'' jid then ''[group:'' @ jid @ ''] '' else '''') @ B\<rparr>]"
proof -
  have t: "truthy (textContent_of msg)" using assms(3,4) by (simp add: truthy_def)
  show ?thesis
    using assms(2,3) by (simp add: process_text [OF assms(1) t] Let_def isGroup_def)
qed

theorem text_path_precedence_witness:
  "downloads_of (snd (processMessage example_world [] text_and_audio_msg)) = [] \<and>
   transcribes_of (snd (processMessage example_world [] text_and_audio_msg)) = [] \<and>
   map content (forwards_of (snd (processMessage example_world [] text_and_audio_msg)))
     = [''[group:123@g.us] caption'']"
proof -
  have p: "passes_filters text_and_audio_msg"
    by (simp add: ex_defs eval_defs)
  have j: "remoteJid (key text_and_audio_msg) = Some ''123@g.us''"
    by (simp add: ex_defs)
  have b: "textContent_of text_and_audio_msg = Some ''caption''"
    by (simp add: ex_defs eval_defs)
  have n: "''caption'' \<noteq> []" by simp
  have a: "audioMessage_of text_and_audio_msg = Some \<lparr>seconds = Some 3, ptt = Some True\<rparr>"
    by (simp add: ex_defs eval_defs)
  from text_path_precedence [OF p j b n a, where w = example_world and h = "[]"]
  show ?thesis by (simp add: suffix_to_prefix)
qed

subsection \<open>The reply\<close>

text \<open>
  C10. \<open>processMessage\<close> sends a reply if and only if the orchestrator was asked and
  the reply it gave is not \<open>null\<close> and has a non-empty \<open>text\<close>; then there is exactly
  one send, of that text, to the conversation id of the message (in a group the group id,
  where the forwarded sender is the participant).
\<close>

theorem reply_send_iff:
  "(sends_of (snd (processMessage w h msg)) \<noteq> [] \<longleftrightarrow>
      (\<exists>out r t. answers_of (snd (processMessage w h msg)) = [out] \<and>
                 bridge_reply out = Some r \<and> resp_text r = Some t \<and> t \<noteq> [])) \<and>
   (\<forall>out r t. answers_of (snd (processMessage w h msg)) = [out] \<and>
              bridge_reply out = Some r \<and> resp_text r = Some t \<and> t \<noteq> [] \<longrightarrow>
        sends_of (snd (processMessage w h msg)) = [(the (remoteJid (key msg)), t)])"
proof -
  let ?evs = "snd (processMessage w h msg)"
  let ?jid = "the (remoteJid (key msg))"
  have s: "sends_of ?evs = concat (map (send_for ?jid) (answers_of ?evs))"
    by (rule process_sends)
  have "length (answers_of ?evs) \<le> 1" by (rule process_answers_le)
  then consider "answers_of ?evs = []" | out where "answers_of ?evs = [out]"
    by (cases "answers_of ?evs") auto
  then show ?thesis
  proof cases
    case 1
    with s show ?thesis by simp
  next
    case 2
    with s have "sends_of ?evs = send_for ?jid out" by simp
    with 2 show ?thesis
      by (auto simp: send_for_def split: option.splits if_splits)
  qed
qed

theorem reply_send_iff_witness:
  "sends_of (snd (processMessage example_world [] hello_group_msg)) = [(''123@g.us'', ''ok'')] \<and>
   map sender_id (forwards_of (snd (processMessage example_world [] hello_group_msg)))
     = [''555@s.whatsapp.net''] \<and>
   sends_of (snd (processMessage empty_text_world [] hello_group_msg)) = []"
proof -
  have a: "answers_of (snd (processMessage example_world [] hello_group_msg)) = [HttpResponse 200 ok_reply]"
    by (simp add: ex_defs eval_defs)
  have b: "bridge_reply (HttpResponse 200 ok_reply) = Some ok_reply"
    by (simp add: bridge_reply_def axios_post_def)
  have c: "resp_text ok_reply = Some ''ok''" by (simp add: ok_reply_def)
  have d: "the (remoteJid (key hello_group_msg)) = ''123@g.us''" by (simp add: ex_defs)
  have e: "map sender_id (forwards_of (snd (processMessage example_world [] hello_group_msg)))
     = [''555@s.whatsapp.net'']"
    by (simp add: ex_defs eval_defs)
  have f: "answers_of (snd (processMessage empty_text_world [] hello_group_msg)) =
      [HttpResponse 200 \<lparr>resp_text = Some '''', resp_metadata = None, resp_error = None\<rparr>]"
    by (simp add: ex_defs eval_defs)
  have g: "bridge_reply (HttpResponse 200 \<lparr>resp_text = Some '''', resp_metadata = None, resp_error = None\<rparr>)
      = Some \<lparr>resp_text = Some '''', resp_metadata = None, resp_error = None\<rparr>"
    by (simp add: bridge_reply_def axios_post_def)
  from reply_send_iff [where w = example_world and h = "[]" and msg = hello_group_msg] a b c d
  have 1: "sends_of (snd (processMessage example_world [] hello_group_msg)) = [(''123@g.us'', ''ok'')]"
    by simp
  from reply_send_iff [where w = empty_text_world and h = "[]" and msg = hello_group_msg] f g
  have 2: "sends_of (snd (processMessage empty_text_world [] hello_group_msg)) = []"
    by simp
  from 1 e 2 show ?thesis by simp
qed

subsection \<open>A failed forward\<close>

text \<open>
  C6. \<open>forwardToOpenClaw\<close> posts exactly the payload \<open>{channel: "whatsapp", sender_id,
  content}\<close>, once; it returns the response body when the status is 2xx and \<open>null\<close> for
  any other status, a network failure or a timeout. When every forward of
  \<open>processMessage\<close> returned \<open>null\<close>, no send is issued and \<open>processMessage\<close>
  resolves, so no exception reaches the \<open>catch\<close> of the batch loop.
\<close>

theorem forward_failure_isolation:
  "forwards_of (snd (forwardToOpenClaw w h s c)) =
     [\<lparr>channel = ''whatsapp'', sender_id = s, content = c\<rparr>] \<and>
   length (answers_of (snd (forwardToOpenClaw w h s c))) = 1 \<and>
   (answers_of (snd (forwardToOpenClaw w h s c)) = [out] \<longrightarrow>
      fst (forwardToOpenClaw w h s c) =
        (case out of
           HttpResponse st d \<Rightarrow> if 200 \<le> st \<and> st < 300 then Some d else None
         | HttpFailed f \<Rightarrow> None)) \<and>
   ((\<forall>a \<in> set (answers_of (snd (processMessage w h msg))). bridge_reply a = None) \<longrightarrow>
      sends_of (snd (processMessage w h msg)) = [] \<and> fst (processMessage w h msg) = None)"
proof (intro conjI impI)
  show "forwards_of (snd (forwardToOpenClaw w h s c)) =
     [\<lparr>channel = ''whatsapp'', sender_id = s, content = c\<rparr>]" by simp
  show "length (answers_of (snd (forwardToOpenClaw w h s c))) = 1" by simp
next
  assume "answers_of (snd (forwardToOpenClaw w h s c)) = [out]"
  then have "fst (forwardToOpenClaw w h s c) = bridge_reply out" by (rule forward_answers)
  then show "fst (forwardToOpenClaw w h s c) =
        (case out of
           HttpResponse st d \<Rightarrow> if 200 \<le> st \<and> st < 300 then Some d else None
         | HttpFailed f \<Rightarrow> None)"
    by (simp add: bridge_reply_cases)
next
  assume a: "\<forall>a \<in> set (answers_of (snd (processMessage w h msg))). bridge_reply a = None"
  from process_failed_forward [OF a]
  show "sends_of (snd (processMessage w h msg)) = []" by simp
  from process_failed_forward [OF a]
  show "fst (processMessage w h msg) = None" by simp
qed

theorem forward_failure_isolation_witness:
  "fst (forwardToOpenClaw failing_world [] ''555@s.whatsapp.net'' ''hello'') = None \<and>
   fst (forwardToOpenClaw example_world [] ''555@s.whatsapp.net'' ''hello'') = Some ok_reply \<and>
   sends_of (snd (processMessage failing_world [] hello_group_msg)) = [] \<and>
   fst (processMessage failing_world [] hello_group_msg) = None"
proof -
  have a: "answers_of (snd (forwardToOpenClaw failing_world [] ''555@s.whatsapp.net'' ''hello''))
             = [HttpResponse 503 ok_reply]"
    by (simp add: ex_defs eval_defs)
  have b: "answers_of (snd (forwardToOpenClaw example_world [] ''555@s.whatsapp.net'' ''hello''))
             = [HttpResponse 200 ok_reply]"
    by (simp add: ex_defs eval_defs)
  have c: "\<forall>a \<in> set (answers_of (snd (processMessage failing_world [] hello_group_msg))).
             bridge_reply a = None"
    by (simp add: ex_defs eval_defs bridge_reply_def)
  from a forward_failure_isolation [where w = failing_world and h = "[]" and s = "''555@s.whatsapp.net''"
               and c = "''hello''" and out = "HttpResponse 503 ok_reply"
               and msg = hello_group_msg] c
  have 1: "fst (forwardToOpenClaw failing_world [] ''555@s.whatsapp.net'' ''hello'') = None \<and>
           sends_of (snd (processMessage failing_world [] hello_group_msg)) = [] \<and>
           fst (processMessage failing_world [] hello_group_msg) = None"
    by simp
  from b forward_failure_isolation [where w = example_world and h = "[]" and s = "''555@s.whatsapp.net''"
               and c = "''hello''" and out = "HttpResponse 200 ok_reply"
               and msg = hello_group_msg]
  have 2: "fst (forwardToOpenClaw example_world [] ''555@s.whatsapp.net'' ''hello'') = Some ok_reply"
    by simp
  from 1 2 show ?thesis by simp
qed

subsection \<open>The resolved sender\<close>

text \<open>
  C4 (amended). For a message that passes the filters, in conversation \<open>jid\<close>: in a group
  (\<open>jid\<close> ends in \<open>@g.us\<close>) the sender is the participant id when it is a non-empty
  string, and \<open>jid\<close> when the participant id is absent or the empty string; in a direct
  conversation the sender is \<open>jid\<close>. Every forwarded payload carries that sender.
\<close>

theorem resolved_sender:
  assumes "passes_filters msg" and "remoteJid (key msg) = Some jid"
  shows "(suffix ''@g.us'' jid \<and> participant (key msg) = Some P \<and> P \<noteq> [] \<longrightarrow>
            senderId_of msg jid = P) \<and>
         (suffix ''@g.us'' jid \<and>
            (participant (key msg) = None \<or> participant (key msg) = Some []) \<longrightarrow>
            senderId_of msg jid = jid) \<and>
         (\<not> suffix ''@g.us'' jid \<longrightarrow> senderId_of msg jid = jid) \<and>
         (\<forall>p \<in> set (forwards_of (snd (processMessage w h msg))).
            sender_id p = senderId_of msg jid)"
  using assms(2) process_sender [of w h msg]
  by (auto simp: senderId_of_def isGroup_def js_or_def truthy_def)

theorem resolved_sender_witness:
  "senderId_of hello_group_msg ''123@g.us'' = ''555@s.whatsapp.net'' \<and>
   map sender_id (forwards_of (snd (processMessage example_world [] hello_group_msg)))
     = [''555@s.whatsapp.net''] \<and>
   senderId_of anon_group_msg ''123@g.us'' = ''123@g.us'' \<and>
   senderId_of direct_msg ''777@s.whatsapp.net'' = ''777@s.whatsapp.net''"
proof -
  have p: "passes_filters hello_group_msg" by (simp add: ex_defs eval_defs)
  have j: "remoteJid (key hello_group_msg) = Some ''123@g.us''" by (simp add: ex_defs)
  have q: "participant (key hello_group_msg) = Some ''555@s.whatsapp.net''" by (simp add: ex_defs)
  have s: "suffix ''@g.us'' ''123@g.us''" by (simp add: suffix_to_prefix)
  have f: "forwards_of (snd (processMessage example_world [] hello_group_msg)) =
             [\<lparr>channel = ''whatsapp'', sender_id = ''555@s.whatsapp.net'',
               content = ''[group:123@g.us] hello''\<rparr>]"
    by (simp add: ex_defs eval_defs)
  note r = resolved_sender [OF p j, where P = "''555@s.whatsapp.net''"
                              and w = example_world and h = "[]"]
  from r s q have 0: "senderId_of hello_group_msg ''123@g.us'' = ''555@s.whatsapp.net''"
    by blast
  from r have "\<forall>p \<in> set (forwards_of (snd (processMessage example_world [] hello_group_msg))).
            sender_id p = senderId_of hello_group_msg ''123@g.us''" by blast
  with 0 have "map sender_id (forwards_of (snd (processMessage example_world [] hello_group_msg)))
       = [''555@s.whatsapp.net'']"
    unfolding f by simp
  with 0 have 1: "senderId_of hello_group_msg ''123@g.us'' = ''555@s.whatsapp.net'' \<and>
     map sender_id (forwards_of (snd (processMessage example_world [] hello_group_msg)))
       = [''555@s.whatsapp.net'']"
    by simp
  have p2: "passes_filters anon_group_msg" by (simp add: ex_defs eval_defs)
  have j2: "remoteJid (key anon_group_msg) = Some ''123@g.us''" by (simp add: ex_defs)
  have q2: "participant (key anon_group_msg) = None" by (simp add: ex_defs)
  have 2: "senderId_of anon_group_msg ''123@g.us'' = ''123@g.us''"
    using resolved_sender [OF p2 j2, where w = example_world and h = "[]"] q2
    by (simp add: suffix_to_prefix)
  have p3: "passes_filters direct_msg" by (simp add: ex_defs eval_defs)
  have j3: "remoteJid (key direct_msg) = Some ''777@s.whatsapp.net''"
    by (simp add: ex_defs)
  have 3: "senderId_of direct_msg ''777@s.whatsapp.net'' = ''777@s.whatsapp.net''"
    using resolved_sender [OF p3 j3, where w = example_world and h = "[]"]
    by (simp add: suffix_to_prefix)
  from 1 2 3 show ?thesis by simp
qed

text \<open>
  As stated, with the participant id merely present, the claim fails: a group message whose
  participant id is the empty string is forwarded with the group id as its sender.
\<close>

theorem resolved_sender_counterexample:
  "passes_filters empty_participant_msg \<and>
   suffix ''@g.us'' ''123@g.us'' \<and>
   remoteJid (key empty_participant_msg) = Some ''123@g.us'' \<and>
   participant (key empty_participant_msg) = Some '''' \<and>
   senderId_of empty_participant_msg ''123@g.us'' \<noteq> '''' \<and>
   map sender_id (forwards_of (snd (processMessage example_world [] empty_participant_msg)))
     = [''123@g.us'']"
  by (simp add: ex_defs eval_defs)

subsection \<open>The reconnect decision\<close>

text \<open>
  C1. For a connection update that reports \<open>close\<close>: when the status code of the last
  disconnect is not \<open>DisconnectReason.loggedOut\<close> (also when there is none), exactly one
  timer is added, with delay 3000 ms and the reconnect callback, the process-wide
  \<open>socket\<close> is left as it was, and the listener itself does not connect. The callback,
  when it runs, makes exactly one run of \<open>connectWhatsApp\<close> whatever comes of it, takes
  one timer off and schedules none, and stores the new socket when the connection is made.
  When the status code is \<open>loggedOut\<close>, \<open>socket\<close> becomes \<open>null\<close>, no timer is
  added and nothing connects.
\<close>

theorem close_event_reconnect_decision:
  assumes "connection update = Some ''close''"
  shows "(statusCode_of update \<noteq> Some loggedOut \<longrightarrow>
            timers (on_connection_update loggedOut sock update st)
              = timers st @ [(3000, Reconnect)] \<and>
            socket (on_connection_update loggedOut sock update st) = socket st \<and>
            connect_calls (on_connection_update loggedOut sock update st) = connect_calls st \<and>
            connect_calls (run_callback co (on_connection_update loggedOut sock update st))
              = Suc (connect_calls st) \<and>
            length (timers (run_callback co (on_connection_update loggedOut sock update st)))
              = length (timers st) \<and>
            socket (run_callback Connected (on_connection_update loggedOut sock update st))
              = Some (sockets_made st)) \<and>
         (statusCode_of update = Some loggedOut \<longrightarrow>
            socket (on_connection_update loggedOut sock update st) = None \<and>
            timers (on_connection_update loggedOut sock update st) = timers st \<and>
            connect_calls (on_connection_update loggedOut sock update st) = connect_calls st)"
proof -
  let ?st = "on_connection_update loggedOut sock update st"
  have c: "connect_calls ?st = connect_calls st"
    using assms by (simp add: on_connection_update_def Let_def connect_calls_def logw_def)
  have m: "sockets_made ?st = sockets_made st"
    using assms by (simp add: on_connection_update_def Let_def logw_def)
  have a: "statusCode_of update \<noteq> Some loggedOut \<longrightarrow>
            timers ?st = timers st @ [(3000, Reconnect)] \<and> socket ?st = socket st"
    using assms by (simp add: on_connection_update_def Let_def logw_def)
  have b: "statusCode_of update = Some loggedOut \<longrightarrow> socket ?st = None \<and> timers ?st = timers st"
    using assms by (simp add: on_connection_update_def Let_def logw_def)
  from a b c m show ?thesis
    by (simp add: connect_calls_run_callback timers_run_callback socket_run_callback_Connected)
qed

theorem close_event_reconnect_decision_witness:
  "timers (on_connection_update 401 0 transient_close connected_state) = [(3000, Reconnect)] \<and>
   socket (on_connection_update 401 0 transient_close connected_state) = Some 0 \<and>
   connect_calls (on_connection_update 401 0 transient_close connected_state) = 1 \<and>
   connect_calls (run_callback (VersionFails TypeError)
                    (on_connection_update 401 0 transient_close connected_state)) = 2 \<and>
   socket (run_callback Connected
             (on_connection_update 401 0 transient_close connected_state)) = Some 1 \<and>
   socket (on_connection_update 401 0 logout_close connected_state) = None \<and>
   timers (on_connection_update 401 0 logout_close connected_state) = [] \<and>
   connect_calls (on_connection_update 401 0 logout_close connected_state) = 1"
proof -
  have a: "connection transient_close = Some ''close''" by (simp add: transient_close_def)
  have b: "statusCode_of transient_close \<noteq> Some 401" by (simp add: wa_defs)
  have c: "connection logout_close = Some ''close''" by (simp add: logout_close_def)
  have d: "statusCode_of logout_close = Some 401" by (simp add: wa_defs)
  have e: "timers connected_state = []" "socket connected_state = Some 0"
    "connect_calls connected_state = 1" "sockets_made connected_state = 1"
    by (simp_all add: wa_defs connect_calls_def)
  from close_event_reconnect_decision [OF a, where loggedOut = 401 and sock = 0 and st = connected_state
                          and co = "VersionFails TypeError"] b e
    close_event_reconnect_decision [OF c, where loggedOut = 401 and sock = 0 and st = connected_state] d
  show ?thesis by simp
qed

subsection \<open>Reading the session handle\<close>




subsection \<open>Failure isolation in a batch\<close>



subsection \<open>Transcription\<close>



end
